theory Spec2Isabelle
  imports Complex_Main
begin

section \<open>Values exchanged with the labeler\<close>

text \<open>
  The labeler (\<^verbatim>\<open>labeler_web.py\<close>) receives JSON bodies, reads rows of the hosted
  table \<^verbatim>\<open>segment_images\<close>, keeps proposed labels in the process-wide dictionary
  \<^verbatim>\<open>pending_labels\<close> and writes a spreadsheet. Python values are modelled as follows:
  unbounded integers are \<open>int\<close>, strings are \<open>string\<close>, \<^verbatim>\<open>None\<close> in a nullable text
  column is \<open>None\<close> of an option, a dictionary is a map, an exception is a value
  of \<open>py_error\<close>.

  A character of a \<open>string\<close> is a code point below 256, so that the length of a string
  is its number of code points, as in Python. Text with other code points is outside the
  model.
\<close>

datatype py_error =
    TypeError | ValueError | OverflowError | AttributeError | StoreError | ExportError
  | IllegalCharacterError

text \<open>
  A JSON number with a fraction or an exponent is parsed to a Python float. Every finite
  float is a rational number; \<^verbatim>\<open>NaN\<close> and the infinities are accepted by Python's
  JSON parser as well.
\<close>

datatype pyfloat = Finite rat | PosInf | NegInf | NaN

text \<open>
  A value returned by the JSON parser. \<open>JObj\<close> holds the items of the parsed
  dictionary, each key once. An integer of a parsed value is within the interpreter's
  limit on decimal digits, since the parser reads it with \<^verbatim>\<open>int()\<close>.
\<close>

datatype json =
    JNull
  | JBool bool
  | JInt int
  | JFloat pyfloat
  | JStr string
  | JArr "json list"
  | JObj "(string \<times> json) list"

text \<open>Truth value of a Python object, as used by \<^verbatim>\<open>x or default\<close>.\<close>

fun py_truthy :: "json \<Rightarrow> bool" where
  "py_truthy JNull = False"
| "py_truthy (JBool b) = b"
| "py_truthy (JInt n) = (n \<noteq> 0)"
| "py_truthy (JFloat f) = (f \<noteq> Finite 0)"
| "py_truthy (JStr s) = (s \<noteq> [])"
| "py_truthy (JArr xs) = (xs \<noteq> [])"
| "py_truthy (JObj kvs) = (kvs \<noteq> [])"

subsection \<open>The built-in \<^verbatim>\<open>int()\<close>\<close>

text \<open>
  \<^verbatim>\<open>int(s)\<close> on a string first turns white space outside ASCII into a blank (below 256
  these are the code points 133 and 160; the ASCII fast path and the transformation keep
  every code point below 127 as it is). It then skips the white space of C's
  \<^verbatim>\<open>isspace\<close> on both sides (9 to 13 and 32, not 28 to 31), reads an optional sign and
  decimal digits, where single underscores may separate digits. Anything else is a
  \<^verbatim>\<open>ValueError\<close>. So is a string of more than 640 digits that exceeds the interpreter's
  limit \<^verbatim>\<open>sys.get_int_max_str_digits()\<close> (4300 by default, 0 for no limit); the limit
  counts digits, leading zeros included, and neither underscores nor the sign.
\<close>

definition space_to_ascii :: "char \<Rightarrow> char" where
  "space_to_ascii c = (if (of_char c :: nat) \<in> {133, 160} then CHR '' '' else c)"

definition is_space :: "char \<Rightarrow> bool" where
  "is_space c = ((of_char c :: nat) \<in> {9, 10, 11, 12, 13, 32})"

definition strip :: "string \<Rightarrow> string" where
  "strip s = rev (dropWhile is_space (rev (dropWhile is_space s)))"

definition digit_val :: "char \<Rightarrow> nat option" where
  "digit_val c =
     (let n = (of_char c :: nat) in if 48 \<le> n \<and> n \<le> 57 then Some (n - 48) else None)"

text \<open>The value read so far, the number of digits read so far, whether the last character was a digit.\<close>

fun py_digits :: "nat \<Rightarrow> nat \<Rightarrow> bool \<Rightarrow> string \<Rightarrow> (nat \<times> nat) option" where
  "py_digits acc count prev_digit [] = (if prev_digit then Some (acc, count) else None)"
| "py_digits acc count prev_digit (c # cs) =
     (if c = CHR ''_'' then (if prev_digit then py_digits acc count False cs else None)
      else (case digit_val c of
              None \<Rightarrow> None
            | Some d \<Rightarrow> py_digits (acc * 10 + d) (Suc count) True cs))"

definition over_limit :: "nat \<Rightarrow> nat \<Rightarrow> bool" where
  "over_limit max_str_digits count = (640 < count \<and> 0 < max_str_digits \<and> max_str_digits < count)"

definition int_of_digits :: "nat \<Rightarrow> string \<Rightarrow> py_error + nat" where
  "int_of_digits max_str_digits cs =
     (case py_digits 0 0 False cs of
        None \<Rightarrow> Inl ValueError
      | Some (n, count) \<Rightarrow> if over_limit max_str_digits count then Inl ValueError else Inr n)"

definition int_of_str :: "nat \<Rightarrow> string \<Rightarrow> py_error + int" where
  "int_of_str max_str_digits s =
     (case strip (map space_to_ascii s) of
        [] \<Rightarrow> Inl ValueError
      | c # cs \<Rightarrow>
          if c = CHR ''-'' then
            (case int_of_digits max_str_digits cs of Inl err \<Rightarrow> Inl err | Inr n \<Rightarrow> Inr (- int n))
          else if c = CHR ''+'' then
            (case int_of_digits max_str_digits cs of Inl err \<Rightarrow> Inl err | Inr n \<Rightarrow> Inr (int n))
          else
            (case int_of_digits max_str_digits (c # cs) of Inl err \<Rightarrow> Inl err | Inr n \<Rightarrow> Inr (int n)))"

text \<open>\<^verbatim>\<open>int(x)\<close> on a float truncates towards zero.\<close>

definition trunc_rat :: "rat \<Rightarrow> int" where
  "trunc_rat q = (if q < 0 then - \<lfloor>- q\<rfloor> else \<lfloor>q\<rfloor>)"

fun py_int :: "nat \<Rightarrow> json \<Rightarrow> py_error + int" where
  "py_int m JNull = Inl TypeError"
| "py_int m (JBool b) = Inr (if b then 1 else 0)"
| "py_int m (JInt n) = Inr n"
| "py_int m (JFloat (Finite q)) = Inr (trunc_rat q)"
| "py_int m (JFloat PosInf) = Inl OverflowError"
| "py_int m (JFloat NegInf) = Inl OverflowError"
| "py_int m (JFloat NaN) = Inl ValueError"
| "py_int m (JStr s) = int_of_str m s"
| "py_int m (JArr xs) = Inl TypeError"
| "py_int m (JObj kvs) = Inl TypeError"

subsection \<open>The built-in \<^verbatim>\<open>str()\<close>\<close>

fun dec_digits :: "nat \<Rightarrow> string" where
  "dec_digits n =
     (if n < 10 then [char_of (48 + n)]
      else dec_digits (n div 10) @ [char_of (48 + n mod 10)])"

declare dec_digits.simps [simp del]

definition str_of_int :: "int \<Rightarrow> string" where
  "str_of_int i = (if i < 0 then CHR ''-'' # dec_digits (nat (- i)) else dec_digits (nat i))"

text \<open>
  \<^verbatim>\<open>str(v)\<close> is the identity on a string and returns on every parsed value. The text
  it gives for a float, a list or a dictionary is Python's \<^verbatim>\<open>repr\<close>, which the
  repository does not define: it is the parameter \<open>repr\<close>.
\<close>

fun py_str :: "(json \<Rightarrow> string) \<Rightarrow> json \<Rightarrow> string" where
  "py_str repr (JStr s) = s"
| "py_str repr JNull = ''None''"
| "py_str repr (JBool b) = (if b then ''True'' else ''False'')"
| "py_str repr (JInt n) = str_of_int n"
| "py_str repr v = repr v"

section \<open>The store, the staging map and the server state\<close>

text \<open>
  Modelled from the spec: the schema of the hosted table \<^verbatim>\<open>segment_images\<close>, which the
  repository reads with \<^verbatim>\<open>select("*")\<close> and never declares. A row has a numeric id
  assigned by the store and three text columns; a text column may hold null.
\<close>

record store_row =
  row_id :: int
  row_segment_name :: "string option"
  row_url :: "string option"
  row_label :: "string option"

text \<open>The dictionary appended to \<^verbatim>\<open>segments\<close> by the loader (keys id, segment_name, url, label).\<close>

record segment =
  seg_id :: int
  segment_name :: "string option"
  url :: "string option"
  label :: string

text \<open>
  One sheet of an openpyxl workbook: its title, its cells by (row, column), both counted
  from 1, and the column widths set through \<^verbatim>\<open>column_dimensions\<close>. A cell that exists
  and holds no value is \<open>Some None\<close>.
\<close>

record worksheet =
  title :: string
  cells :: "nat \<times> nat \<rightharpoonup> string option"
  column_width :: "string \<rightharpoonup> nat"

type_synonym workbook = "worksheet list"

text \<open>What \<^verbatim>\<open>print\<close> writes when a store call fails.\<close>

datatype log_entry = LoadFailed py_error | UpdateFailed int py_error

text \<open>
  The state a request runs in: the module-level dictionary \<^verbatim>\<open>pending_labels\<close>, the rows
  of the remote table, the files on disk by path, and the printed log.
\<close>

record server =
  pending_labels :: "int \<rightharpoonup> string"
  store :: "store_row list"
  files :: "string \<rightharpoonup> workbook"
  log :: "log_entry list"

text \<open>
  What a request does not control: whether the read of the store fails, whether the
  update made in the \<open>i\<close>-th iteration of the commit loop fails, whether writing the
  spreadsheet file fails, the directory of the script (\<^verbatim>\<open>APP_DIR\<close>), Python's \<^verbatim>\<open>repr\<close>
  and the interpreter's limit on the digits of \<^verbatim>\<open>int()\<close>.
\<close>

record env =
  read_fault :: bool
  update_fault :: "nat \<Rightarrow> bool"
  export_fault :: bool
  app_dir :: string
  repr :: "json \<Rightarrow> string"
  int_max_str_digits :: nat

datatype body = OkTrue | OkFalse string | SegmentsBody "segment list"

text \<open>A handler answers with a status and a JSON body, or lets an exception escape.\<close>

datatype http_result = Response nat body | Raised py_error

section \<open>The remote segment store\<close>

text \<open>
  \<^verbatim>\<open>supabase.table("segment_images").select("*").or_("label.is.null").execute()\<close>:
  the only condition of the filter is that the label is null.
\<close>

definition select_label_is_null :: "bool \<Rightarrow> store_row list \<Rightarrow> py_error + store_row list" where
  "select_label_is_null fault rows =
     (if fault then Inl StoreError else Inr (filter (\<lambda>r. row_label r = None) rows))"

text \<open>\<^verbatim>\<open>.update({"label": label}).eq("id", segment_id).execute()\<close>\<close>

definition update_label :: "bool \<Rightarrow> string \<Rightarrow> int \<Rightarrow> store_row list \<Rightarrow> py_error + store_row list" where
  "update_label fault lbl segment_id rows =
     (if fault then Inl StoreError
      else Inr (map (\<lambda>r. if row_id r = segment_id then r\<lparr>row_label := Some lbl\<rparr> else r) rows))"

section \<open>\<^verbatim>\<open>load_segments_from_db\<close>\<close>

text \<open>\<^verbatim>\<open>row.get("label") or ""\<close>\<close>

definition or_empty :: "string option \<Rightarrow> string" where
  "or_empty v = (case v of None \<Rightarrow> [] | Some l \<Rightarrow> if l = [] then [] else l)"

text \<open>The body of the \<^verbatim>\<open>for row in rows\<close> loop, for one row.\<close>

definition segment_of_row :: "(int \<rightharpoonup> string) \<Rightarrow> store_row \<Rightarrow> segment" where
  "segment_of_row pending row =
     (let segment_id = row_id row;
          url = row_url row;
          label = or_empty (row_label row);
          label = (case pending segment_id of Some staged \<Rightarrow> staged | None \<Rightarrow> label)
      in \<lparr>seg_id = segment_id, segment_name = row_segment_name row, url = url, label = label\<rparr>)"

fun overlay_rows :: "(int \<rightharpoonup> string) \<Rightarrow> store_row list \<Rightarrow> segment list \<Rightarrow> segment list" where
  "overlay_rows pending [] segments = segments"
| "overlay_rows pending (row # rows) segments =
     overlay_rows pending rows (segments @ [segment_of_row pending row])"

definition load_segments_from_db :: "env \<Rightarrow> server \<Rightarrow> segment list \<times> server" where
  "load_segments_from_db e s =
     (case select_label_is_null (read_fault e) (store s) of
        Inl err \<Rightarrow> ([], s\<lparr>log := log s @ [LoadFailed err]\<rparr>)
      | Inr rows \<Rightarrow> (overlay_rows (pending_labels s) rows [], s))"

section \<open>\<^verbatim>\<open>GET /api/segments\<close>\<close>

definition api_segments :: "env \<Rightarrow> server \<Rightarrow> http_result \<times> server" where
  "api_segments e s =
     (case load_segments_from_db e s of (rows, s') \<Rightarrow> (Response 200 (SegmentsBody rows), s'))"

section \<open>\<^verbatim>\<open>POST /api/pending\<close>\<close>

text \<open>
  \<^verbatim>\<open>request.get_json(silent=True) or {}\<close>: the body is \<open>None\<close> when it is absent or
  is not JSON.
\<close>

definition request_data :: "json option \<Rightarrow> json" where
  "request_data req =
     (case req of None \<Rightarrow> JObj [] | Some v \<Rightarrow> if py_truthy v then v else JObj [])"

text \<open>\<^verbatim>\<open>data.get(key, default)\<close>; only a dictionary has the method.\<close>

definition dict_get :: "json \<Rightarrow> string \<Rightarrow> json \<Rightarrow> py_error + json" where
  "dict_get d k dflt =
     (case d of
        JObj kvs \<Rightarrow> Inr (case map_of kvs k of None \<Rightarrow> dflt | Some v \<Rightarrow> v)
      | _ \<Rightarrow> Inl AttributeError)"

text \<open>\<^verbatim>\<open>segment_id = int(data.get("id", 0))\<close>\<close>

definition segment_id_of :: "env \<Rightarrow> json option \<Rightarrow> py_error + int" where
  "segment_id_of e req =
     (case dict_get (request_data req) ''id'' (JInt 0) of
        Inl err \<Rightarrow> Inl err
      | Inr v \<Rightarrow> py_int (int_max_str_digits e) v)"

text \<open>\<^verbatim>\<open>label = str(data.get("label", ""))\<close>\<close>

definition label_of :: "env \<Rightarrow> json option \<Rightarrow> py_error + string" where
  "label_of e req =
     (case dict_get (request_data req) ''label'' (JStr []) of
        Inl err \<Rightarrow> Inl err
      | Inr v \<Rightarrow> Inr (py_str (repr e) v))"

definition api_pending :: "env \<Rightarrow> json option \<Rightarrow> server \<Rightarrow> http_result \<times> server" where
  "api_pending e req s =
     (case segment_id_of e req of
        Inl err \<Rightarrow> (Raised err, s)
      | Inr segment_id \<Rightarrow>
          (case label_of e req of
             Inl err \<Rightarrow> (Raised err, s)
           | Inr lbl \<Rightarrow>
               if segment_id \<le> 0 then (Response 400 (OkFalse ''invalid segment_id''), s)
               else (Response 200 OkTrue,
                     s\<lparr>pending_labels := (pending_labels s)(segment_id \<mapsto> lbl)\<rparr>)))"

section \<open>\<^verbatim>\<open>POST /api/commit\<close>\<close>

text \<open>
  The body of the first loop of the handler, with \<open>i\<close> the number of the iteration: a
  segment with a staged label is written to the store; when the update raises, the
  failure is printed and nothing else happens.
\<close>

definition persist_step :: "env \<Rightarrow> nat \<Rightarrow> segment \<Rightarrow> server \<Rightarrow> server" where
  "persist_step e i sg s =
     (let segment_id = seg_id sg in
      case pending_labels s segment_id of
        None \<Rightarrow> s
      | Some lbl \<Rightarrow>
          (case update_label (update_fault e i) lbl segment_id (store s) of
             Inl err \<Rightarrow> s\<lparr>log := log s @ [UpdateFailed segment_id err]\<rparr>
           | Inr rows' \<Rightarrow> s\<lparr>store := rows'\<rparr>))"

fun persist_loop :: "env \<Rightarrow> nat \<Rightarrow> segment list \<Rightarrow> server \<Rightarrow> server" where
  "persist_loop e i [] s = s"
| "persist_loop e i (sg # segments) s = persist_loop e (Suc i) segments (persist_step e i sg s)"

text \<open>\<^verbatim>\<open>Workbook()\<close> has one sheet, the active one, titled "Sheet".\<close>

definition new_sheet :: worksheet where
  "new_sheet = \<lparr>title = ''Sheet'', cells = Map.empty, column_width = Map.empty\<rparr>"

text \<open>
  openpyxl checks every string assigned to a cell (\<^verbatim>\<open>Cell.check_string\<close>): the string
  is cut at 32767 characters and, when what is left holds a control character other
  than tab, line feed and carriage return, \<^verbatim>\<open>IllegalCharacterError\<close> is raised.
\<close>

definition illegal_char :: "char \<Rightarrow> bool" where
  "illegal_char c = ((of_char c :: nat) \<le> 8 \<or> (of_char c :: nat) \<in> {11, 12}
     \<or> (14 \<le> (of_char c :: nat) \<and> (of_char c :: nat) \<le> 31))"

definition check_string :: "string \<Rightarrow> py_error + string" where
  "check_string v =
     (let v = take 32767 v
      in if \<exists>c \<in> set v. illegal_char c then Inl IllegalCharacterError else Inr v)"

text \<open>
  \<^verbatim>\<open>ws.cell(row, column, value)\<close> creates the cell when it is absent and assigns the
  checked value unless the value is \<^verbatim>\<open>None\<close>.
\<close>

definition ws_cell :: "nat \<Rightarrow> nat \<Rightarrow> string option \<Rightarrow> worksheet \<Rightarrow> py_error + worksheet" where
  "ws_cell r c v ws =
     (case v of
        None \<Rightarrow>
          Inr (if cells ws (r, c) = None then ws\<lparr>cells := (cells ws)((r, c) \<mapsto> None)\<rparr> else ws)
      | Some x \<Rightarrow>
          (case check_string x of
             Inl err \<Rightarrow> Inl err
           | Inr x' \<Rightarrow> Inr (ws\<lparr>cells := (cells ws)((r, c) \<mapsto> Some x')\<rparr>)))"

definition set_width :: "string \<Rightarrow> nat \<Rightarrow> worksheet \<Rightarrow> worksheet" where
  "set_width col w ws = ws\<lparr>column_width := (column_width ws)(col \<mapsto> w)\<rparr>"

text \<open>Lines 102 to 108: the title, the header row and the widths.\<close>

definition header_sheet :: "py_error + worksheet" where
  "header_sheet =
     (case ws_cell 1 1 (Some ''segment_name'') (new_sheet\<lparr>title := ''results''\<rparr>) of
        Inl err \<Rightarrow> Inl err
      | Inr ws1 \<Rightarrow>
          (case ws_cell 1 2 (Some ''url'') ws1 of
             Inl err \<Rightarrow> Inl err
           | Inr ws2 \<Rightarrow>
               (case ws_cell 1 3 (Some ''label'') ws2 of
                  Inl err \<Rightarrow> Inl err
                | Inr ws3 \<Rightarrow>
                    Inr (set_width ''C'' 15 (set_width ''B'' 80 (set_width ''A'' 40 ws3))))))"

text \<open>The second loop, from \<^verbatim>\<open>row_idx = 2\<close>; it stops at the first cell that raises.\<close>

fun write_rows :: "nat \<Rightarrow> segment list \<Rightarrow> worksheet \<Rightarrow> py_error + worksheet" where
  "write_rows row_idx [] ws = Inr ws"
| "write_rows row_idx (sg # segments) ws =
     (case ws_cell row_idx 1 (segment_name sg) ws of
        Inl err \<Rightarrow> Inl err
      | Inr ws1 \<Rightarrow>
          (case ws_cell row_idx 2 (url sg) ws1 of
             Inl err \<Rightarrow> Inl err
           | Inr ws2 \<Rightarrow>
               (case ws_cell row_idx 3 (Some (label sg)) ws2 of
                  Inl err \<Rightarrow> Inl err
                | Inr ws3 \<Rightarrow> write_rows (row_idx + 1) segments ws3)))"

definition export_sheet :: "segment list \<Rightarrow> py_error + worksheet" where
  "export_sheet segments =
     (case header_sheet of Inl err \<Rightarrow> Inl err | Inr ws \<Rightarrow> write_rows 2 segments ws)"

definition build_workbook :: "segment list \<Rightarrow> py_error + workbook" where
  "build_workbook segments =
     (case export_sheet segments of Inl err \<Rightarrow> Inl err | Inr ws \<Rightarrow> Inr [ws])"

text \<open>\<^verbatim>\<open>os.path.join(APP_DIR, "segments.xlsx")\<close>\<close>

definition path_join :: "string \<Rightarrow> string \<Rightarrow> string" where
  "path_join a b = (if a = [] then b else if last a = CHR ''/'' then a @ b else a @ ''/'' @ b)"

definition XLSX_PATH :: "env \<Rightarrow> string" where
  "XLSX_PATH e = path_join (app_dir e) ''segments.xlsx''"

text \<open>
  \<^verbatim>\<open>wb.save(path)\<close> replaces the file, unless writing it fails. The handler has no
  \<^verbatim>\<open>try\<close> around the export: when a cell is refused or the file cannot be written, the
  exception escapes the handler, the disk is left as it was and the statements after the
  export are not run.
\<close>

definition wb_save :: "bool \<Rightarrow> workbook \<Rightarrow> string \<Rightarrow> (string \<rightharpoonup> workbook) \<Rightarrow> py_error + (string \<rightharpoonup> workbook)" where
  "wb_save fault wb path fs = (if fault then Inl ExportError else Inr (fs(path \<mapsto> wb)))"

definition api_commit :: "env \<Rightarrow> server \<Rightarrow> http_result \<times> server" where
  "api_commit e s =
     (case load_segments_from_db e s of
        (segments, s1) \<Rightarrow>
          (let s2 = persist_loop e 0 segments s1
           in case build_workbook segments of
                Inl err \<Rightarrow> (Raised err, s2)
              | Inr wb \<Rightarrow>
                  (case wb_save (export_fault e) wb (XLSX_PATH e) (files s2) of
                     Inl err \<Rightarrow> (Raised err, s2)
                   | Inr fs \<Rightarrow>
                       (Response 200 OkTrue, s2\<lparr>files := fs, pending_labels := Map.empty\<rparr>))))"

section \<open>Notions used to state the properties\<close>

text \<open>
  The id \<open>k\<close> is persisted by a commit over \<open>segments\<close> when some iteration of the
  first loop meets a segment with that id, a label is staged for it, and the update of
  that iteration does not fail.
\<close>

definition persisted :: "env \<Rightarrow> (int \<rightharpoonup> string) \<Rightarrow> segment list \<Rightarrow> int \<Rightarrow> bool" where
  "persisted e pending segments k =
     (\<exists>i \<in> set [0..<length segments].
        seg_id (segments ! i) = k \<and> pending k \<noteq> None \<and> \<not> update_fault e i)"

text \<open>
  A cell value is accepted when it is \<^verbatim>\<open>None\<close> or a string whose first 32767
  characters hold no character that openpyxl refuses. A sequence of segments is
  exportable when the three exported fields of each segment are accepted.
\<close>

definition accepted :: "string option \<Rightarrow> bool" where
  "accepted v = (case v of None \<Rightarrow> True | Some x \<Rightarrow> \<not> (\<exists>c \<in> set (take 32767 x). illegal_char c))"

definition exportable :: "segment list \<Rightarrow> bool" where
  "exportable segments =
     (\<forall>sg \<in> set segments.
        accepted (segment_name sg) \<and> accepted (url sg) \<and> accepted (Some (label sg)))"

text \<open>What a cell holds after an accepted value was assigned to it.\<close>

definition cell_value :: "string option \<Rightarrow> string option" where
  "cell_value v = map_option (take 32767) v"

text \<open>
  The sheet that the exporter is specified to write for a sequence of segments: the
  title "results", the three widths, the header in row 1 and the fields of the
  \<open>i\<close>-th segment (counted from 0) in row \<open>i + 2\<close>, and no other cell.
\<close>

definition results_cells :: "segment list \<Rightarrow> nat \<times> nat \<Rightarrow> string option option" where
  "results_cells segments p =
     (case p of (r, c) \<Rightarrow>
        if r = 1 \<and> c = 1 then Some (Some ''segment_name'')
        else if r = 1 \<and> c = 2 then Some (Some ''url'')
        else if r = 1 \<and> c = 3 then Some (Some ''label'')
        else if 2 \<le> r \<and> r < 2 + length segments \<and> c = 1
          then Some (cell_value (segment_name (segments ! (r - 2))))
        else if 2 \<le> r \<and> r < 2 + length segments \<and> c = 2
          then Some (cell_value (url (segments ! (r - 2))))
        else if 2 \<le> r \<and> r < 2 + length segments \<and> c = 3
          then Some (cell_value (Some (label (segments ! (r - 2)))))
        else None)"

definition results_sheet :: "segment list \<Rightarrow> worksheet" where
  "results_sheet segments =
     \<lparr>title = ''results'', cells = results_cells segments,
      column_width = [''A'' \<mapsto> 40, ''B'' \<mapsto> 80, ''C'' \<mapsto> 15]\<rparr>"

section \<open>Example inputs\<close>

text \<open>A fault-free environment, some rows of the table and a server with nothing staged.\<close>

definition env0 :: env where
  "env0 = \<lparr>read_fault = False, update_fault = (\<lambda>i. False), export_fault = False,
           app_dir = ''/srv/labeler'', repr = (\<lambda>v. ''<repr>''), int_max_str_digits = 4300\<rparr>"

definition row7 :: store_row where
  "row7 = \<lparr>row_id = 7, row_segment_name = Some ''seg7'', row_url = Some ''http://x/7.png'',
           row_label = None\<rparr>"

definition row8 :: store_row where
  "row8 = \<lparr>row_id = 8, row_segment_name = Some ''seg8'', row_url = Some ''http://x/8.png'',
           row_label = None\<rparr>"

definition row9 :: store_row where
  "row9 = \<lparr>row_id = 9, row_segment_name = Some ''seg9'', row_url = Some ''http://x/9.png'',
           row_label = Some []\<rparr>"

definition row5 :: store_row where
  "row5 = \<lparr>row_id = 5, row_segment_name = Some ''seg5'', row_url = Some ''http://x/5.png'',
           row_label = Some ''dog''\<rparr>"

definition server0 :: server where
  "server0 = \<lparr>pending_labels = Map.empty, store = [row7, row8], files = Map.empty, log = []\<rparr>"

text \<open>
  The partial-failure scenario: labels are staged for both unlabelled rows and the
  update made in the first iteration of the commit loop fails.
\<close>

definition server_staged :: server where
  "server_staged = server0\<lparr>pending_labels := [7 \<mapsto> ''cat'', 8 \<mapsto> ''dog'']\<rparr>"

definition env_fail_first :: env where
  "env_fail_first = env0\<lparr>update_fault := (\<lambda>i. i = 0)\<rparr>"

text \<open>A label with the control character 1, as the JSON string "a\u0001b" gives it.\<close>

definition ctrl_label :: string where
  "ctrl_label = [CHR ''a'', CHR 0x01, CHR ''b'']"

section \<open>Facts about the loader\<close>

lemma overlay_rows_eq: "overlay_rows p rows acc = acc @ map (segment_of_row p) rows"
  by (induction rows arbitrary: acc) simp_all

lemma load_segments_from_db_fst:
  "fst (load_segments_from_db e s) =
     (if read_fault e then []
      else map (segment_of_row (pending_labels s)) (filter (\<lambda>r. row_label r = None) (store s)))"
  by (simp add: load_segments_from_db_def select_label_is_null_def overlay_rows_eq)

lemma load_segments_from_db_snd:
  "snd (load_segments_from_db e s) =
     (if read_fault e then s\<lparr>log := log s @ [LoadFailed StoreError]\<rparr> else s)"
  by (simp add: load_segments_from_db_def select_label_is_null_def)

section \<open>Facts about the persistence loop\<close>

lemma persist_step_pending: "pending_labels (persist_step e i sg s) = pending_labels s"
  by (simp add: persist_step_def Let_def update_label_def split: option.splits)

lemma persist_step_files: "files (persist_step e i sg s) = files s"
  by (simp add: persist_step_def Let_def update_label_def split: option.splits)

lemma persist_step_log: "set (log s) \<subseteq> set (log (persist_step e i sg s))"
  by (auto simp: persist_step_def Let_def update_label_def split: option.splits)

lemma persist_step_store:
  "store (persist_step e i sg s) =
     map (\<lambda>r. if row_id r = seg_id sg \<and> pending_labels s (row_id r) \<noteq> None \<and> \<not> update_fault e i
               then r\<lparr>row_label := pending_labels s (row_id r)\<rparr> else r) (store s)"
proof (cases "pending_labels s (seg_id sg)")
  case None
  then have "map (\<lambda>r. if row_id r = seg_id sg \<and> pending_labels s (row_id r) \<noteq> None \<and> \<not> update_fault e i
               then r\<lparr>row_label := pending_labels s (row_id r)\<rparr> else r) (store s) = store s"
    by (intro map_idI) auto
  with None show ?thesis
    by (simp add: persist_step_def)
next
  case (Some l)
  show ?thesis
  proof (cases "update_fault e i")
    case True
    then show ?thesis
      using Some by (simp add: persist_step_def update_label_def)
  next
    case False
    then show ?thesis
      using Some by (auto simp: persist_step_def update_label_def)
  qed
qed

lemma persist_loop_pending: "pending_labels (persist_loop e i segs s) = pending_labels s"
  by (induction segs arbitrary: i s) (simp_all add: persist_step_pending)

lemma persist_loop_files: "files (persist_loop e i segs s) = files s"
  by (induction segs arbitrary: i s) (simp_all add: persist_step_files)

lemma persist_loop_store:
  "store (persist_loop e i segs s) =
     map (\<lambda>r. if (\<exists>j<length segs. seg_id (segs ! j) = row_id r \<and> pending_labels s (row_id r) \<noteq> None
                    \<and> \<not> update_fault e (i + j))
               then r\<lparr>row_label := pending_labels s (row_id r)\<rparr> else r) (store s)"
proof (induction segs arbitrary: i s)
  case Nil
  show ?case by simp
next
  case (Cons sg segs)
  show ?case
    using Cons.IH [of "Suc i" "persist_step e i sg s"]
    by (auto simp: Ex_less_Suc2 persist_step_pending persist_step_store)
qed

lemma persist_loop_log_mono: "set (log s) \<subseteq> set (log (persist_loop e i segs s))"
proof (induction segs arbitrary: i s)
  case Nil
  show ?case by simp
next
  case (Cons sg segs)
  show ?case
    using Cons.IH [of "persist_step e i sg s" "Suc i"] persist_step_log [of s e i sg]
    by auto
qed

lemma persist_step_logs_fault:
  "pending_labels s (seg_id sg) \<noteq> None \<Longrightarrow> update_fault e i \<Longrightarrow>
   UpdateFailed (seg_id sg) StoreError \<in> set (log (persist_step e i sg s))"
  by (auto simp: persist_step_def Let_def update_label_def)

lemma persist_loop_log:
  "j < length segs \<Longrightarrow> pending_labels s (seg_id (segs ! j)) \<noteq> None \<Longrightarrow> update_fault e (i + j) \<Longrightarrow>
   UpdateFailed (seg_id (segs ! j)) StoreError \<in> set (log (persist_loop e i segs s))"
proof (induction segs arbitrary: i j s)
  case Nil
  then show ?case by simp
next
  case (Cons sg segs)
  show ?case
  proof (cases j)
    case 0
    then show ?thesis
      using Cons.prems persist_step_logs_fault [of s sg e i]
        persist_loop_log_mono [of "persist_step e i sg s" e "Suc i" segs]
      by auto
  next
    case (Suc k)
    then show ?thesis
      using Cons.prems Cons.IH [of k "persist_step e i sg s" "Suc i"]
      by (simp add: persist_step_pending)
  qed
qed

section \<open>Facts about the handlers\<close>

lemma request_data_JObj: "request_data (Some (JObj kvs)) = JObj kvs"
  by (simp add: request_data_def)

lemma segment_id_of_JObj:
  "segment_id_of e (Some (JObj kvs)) =
     py_int (int_max_str_digits e) (case map_of kvs ''id'' of None \<Rightarrow> JInt 0 | Some v \<Rightarrow> v)"
  by (simp add: segment_id_of_def request_data_JObj dict_get_def)

lemma label_of_JObj:
  "label_of e (Some (JObj kvs)) =
     Inr (py_str (repr e) (case map_of kvs ''label'' of None \<Rightarrow> JStr [] | Some v \<Rightarrow> v))"
  by (simp add: label_of_def request_data_JObj dict_get_def)

lemma segment_id_of_label_of:
  "segment_id_of e req = Inr n \<Longrightarrow> \<exists>l. label_of e req = Inr l"
  by (cases "request_data req") (simp_all add: segment_id_of_def label_of_def dict_get_def)

lemma api_segments_eq:
  "api_segments e s =
     (Response 200 (SegmentsBody (fst (load_segments_from_db e s))), snd (load_segments_from_db e s))"
  by (simp add: api_segments_def case_prod_beta)

lemma api_pending_JObj:
  "api_pending e (Some (JObj kvs)) s =
     (case py_int (int_max_str_digits e) (case map_of kvs ''id'' of None \<Rightarrow> JInt 0 | Some v \<Rightarrow> v) of
        Inl err \<Rightarrow> (Raised err, s)
      | Inr n \<Rightarrow>
          if n \<le> 0 then (Response 400 (OkFalse ''invalid segment_id''), s)
          else (Response 200 OkTrue,
                s\<lparr>pending_labels := (pending_labels s)
                     (n \<mapsto> py_str (repr e) (case map_of kvs ''label'' of None \<Rightarrow> JStr [] | Some v \<Rightarrow> v))\<rparr>))"
  by (simp add: api_pending_def segment_id_of_JObj label_of_JObj split: sum.splits)

lemma api_pending_None:
  "api_pending e None s = (Response 400 (OkFalse ''invalid segment_id''), s)"
  by (simp add: api_pending_def segment_id_of_def label_of_def request_data_def dict_get_def)

lemma trunc_ex: "trunc_rat (29 / 10) = 2"
proof -
  have "\<lfloor>29 / 10 :: rat\<rfloor> = 2"
    by (rule floor_unique) simp_all
  then show ?thesis
    by (simp add: trunc_rat_def)
qed

lemma int_of_str_abc: "int_of_str m ''abc'' = Inl ValueError"
  by (simp add: int_of_str_def int_of_digits_def strip_def is_space_def space_to_ascii_def
      digit_val_def)

lemma api_pending_falsy:
  "\<not> py_truthy v \<Longrightarrow> api_pending e (Some v) s = (Response 400 (OkFalse ''invalid segment_id''), s)"
  by (simp add: api_pending_def segment_id_of_def label_of_def request_data_def dict_get_def)

lemma segment_of_row_staged:
  "pending (row_id row) = Some l \<Longrightarrow> label (segment_of_row pending row) = l"
  by (simp add: segment_of_row_def)

lemma segment_of_row_id: "seg_id (segment_of_row pending row) = row_id row"
  by (simp add: segment_of_row_def Let_def)

lemma api_pending_twice: "api_pending e req (snd (api_pending e req s)) = api_pending e req s"
  by (auto simp: api_pending_def split: sum.splits)

section \<open>Facts about the spreadsheet\<close>

lemma check_string_accepted: "accepted (Some x) \<Longrightarrow> check_string x = Inr (take 32767 x)"
  by (simp add: accepted_def check_string_def)

lemma check_string_refused: "\<not> accepted (Some x) \<Longrightarrow> check_string x = Inl IllegalCharacterError"
  by (simp add: accepted_def check_string_def)

lemma ws_cell_accepted:
  "accepted v \<Longrightarrow> cells ws (r, c) = None \<Longrightarrow>
   ws_cell r c v ws = Inr (ws\<lparr>cells := (cells ws)((r, c) \<mapsto> cell_value v)\<rparr>)"
  by (cases v) (simp_all add: ws_cell_def cell_value_def check_string_accepted)

lemma ws_cell_refused: "\<not> accepted v \<Longrightarrow> ws_cell r c v ws = Inl IllegalCharacterError"
  by (cases v) (simp_all add: ws_cell_def check_string_refused accepted_def)

lemma ws_cell_returns: "accepted v \<Longrightarrow> \<exists>ws'. ws_cell r c v ws = Inr ws'"
  by (cases v) (simp_all add: ws_cell_def check_string_accepted)

lemma accepted_header:
  "accepted (Some ''segment_name'')" "accepted (Some ''url'')" "accepted (Some ''label'')"
  by (simp_all add: accepted_def illegal_char_def)

lemma header_sheet_eq:
  "header_sheet = Inr \<lparr>title = ''results'',
     cells = [(1, 1) \<mapsto> Some ''segment_name'', (1, 2) \<mapsto> Some ''url'', (1, 3) \<mapsto> Some ''label''],
     column_width = [''A'' \<mapsto> 40, ''B'' \<mapsto> 80, ''C'' \<mapsto> 15]\<rparr>"
  by (simp add: header_sheet_def ws_cell_def check_string_accepted accepted_header
      set_width_def new_sheet_def)

lemma write_row_accepted:
  assumes "\<forall>c. cells ws (k, c) = None"
    and "accepted v1" and "accepted v2" and "accepted v3"
  shows "(case ws_cell k 1 v1 ws of
            Inl err \<Rightarrow> Inl err
          | Inr ws1 \<Rightarrow>
              (case ws_cell k 2 v2 ws1 of
                 Inl err \<Rightarrow> Inl err
               | Inr ws2 \<Rightarrow>
                   (case ws_cell k 3 v3 ws2 of
                      Inl err \<Rightarrow> Inl err
                    | Inr ws3 \<Rightarrow> f ws3))) =
         f (ws\<lparr>cells := (cells ws)((k, 1) \<mapsto> cell_value v1, (k, 2) \<mapsto> cell_value v2,
                                    (k, 3) \<mapsto> cell_value v3)\<rparr>)"
proof -
  have 1: "ws_cell k 1 v1 ws = Inr (ws\<lparr>cells := (cells ws)((k, 1) \<mapsto> cell_value v1)\<rparr>)"
    using assms by (simp add: ws_cell_accepted)
  have 2: "ws_cell k 2 v2 (ws\<lparr>cells := (cells ws)((k, 1) \<mapsto> cell_value v1)\<rparr>) =
             Inr (ws\<lparr>cells := (cells ws)((k, 1) \<mapsto> cell_value v1, (k, 2) \<mapsto> cell_value v2)\<rparr>)"
    using assms by (simp add: ws_cell_accepted)
  have 3: "ws_cell k 3 v3 (ws\<lparr>cells := (cells ws)((k, 1) \<mapsto> cell_value v1, (k, 2) \<mapsto> cell_value v2)\<rparr>) =
             Inr (ws\<lparr>cells := (cells ws)((k, 1) \<mapsto> cell_value v1, (k, 2) \<mapsto> cell_value v2,
                                         (k, 3) \<mapsto> cell_value v3)\<rparr>)"
    using assms by (simp add: ws_cell_accepted)
  show ?thesis
    by (simp only: 1 2 3 sum.case)
qed

lemma write_rows_refused: "\<not> exportable segs \<Longrightarrow> write_rows k segs ws = Inl IllegalCharacterError"
proof (induction segs arbitrary: k ws)
  case Nil
  then show ?case by (simp add: exportable_def)
next
  case (Cons sg segs)
  show ?case
  proof (cases "accepted (segment_name sg) \<and> accepted (url sg) \<and> accepted (Some (label sg))")
    case True
    then have rest: "\<not> exportable segs"
      using Cons.prems by (simp add: exportable_def)
    obtain ws1 where 1: "ws_cell k 1 (segment_name sg) ws = Inr ws1"
      using True ws_cell_returns by blast
    obtain ws2 where 2: "ws_cell k 2 (url sg) ws1 = Inr ws2"
      using True ws_cell_returns by blast
    obtain ws3 where 3: "ws_cell k 3 (Some (label sg)) ws2 = Inr ws3"
      using True ws_cell_returns by blast
    show ?thesis
      using Cons.IH [OF rest, of "k + 1" ws3] 1 2 3 by simp
  next
    case False
    show ?thesis
    proof (cases "accepted (segment_name sg)")
      case n: False
      then show ?thesis
        using ws_cell_refused [of "segment_name sg" k 1 ws] by simp
    next
      case n: True
      obtain ws1 where 1: "ws_cell k 1 (segment_name sg) ws = Inr ws1"
        using n ws_cell_returns by blast
      show ?thesis
      proof (cases "accepted (url sg)")
        case u: False
        then show ?thesis
          using 1 ws_cell_refused [of "url sg" k 2 ws1] by simp
      next
        case u: True
        obtain ws2 where 2: "ws_cell k 2 (url sg) ws1 = Inr ws2"
          using u ws_cell_returns by blast
        have "\<not> accepted (Some (label sg))"
          using False n u by simp
        then show ?thesis
          using 1 2 ws_cell_refused [of "Some (label sg)" k 3 ws2] by simp
      qed
    qed
  qed
qed

lemma write_rows_accepted:
  assumes "exportable segs" and "\<forall>r c. k \<le> r \<longrightarrow> cells ws (r, c) = None"
  shows "\<exists>ws'. write_rows k segs ws = Inr ws' \<and> title ws' = title ws \<and>
           column_width ws' = column_width ws \<and>
           (\<forall>r c. cells ws' (r, c) =
              (if k \<le> r \<and> r < k + length segs \<and> c \<in> {1, 2, 3}
               then Some ([cell_value (segment_name (segs ! (r - k))), cell_value (url (segs ! (r - k))),
                           cell_value (Some (label (segs ! (r - k))))] ! (c - 1))
               else cells ws (r, c)))"
  using assms
proof (induction segs arbitrary: k ws)
  case Nil
  show ?case by auto
next
  case (Cons sg segs)
  let ?ws = "ws\<lparr>cells := (cells ws)((k, 1) \<mapsto> cell_value (segment_name sg),
                (k, 2) \<mapsto> cell_value (url sg), (k, 3) \<mapsto> cell_value (Some (label sg)))\<rparr>"
  have acc: "accepted (segment_name sg)" "accepted (url sg)" "accepted (Some (label sg))"
    and rest: "exportable segs"
    using Cons.prems(1) by (simp_all add: exportable_def)
  have row: "\<forall>c. cells ws (k, c) = None"
    using Cons.prems(2) by simp
  have step: "write_rows k (sg # segs) ws = write_rows (k + 1) segs ?ws"
    unfolding write_rows.simps by (rule write_row_accepted [OF row acc])
  have fresh: "\<forall>r c. k + 1 \<le> r \<longrightarrow> cells ?ws (r, c) = None"
    using Cons.prems(2) by simp
  obtain ws' where w: "write_rows (k + 1) segs ?ws = Inr ws'" "title ws' = title ?ws"
    "column_width ws' = column_width ?ws"
    and c: "\<And>r c. cells ws' (r, c) =
              (if k + 1 \<le> r \<and> r < k + 1 + length segs \<and> c \<in> {1, 2, 3}
               then Some ([cell_value (segment_name (segs ! (r - (k + 1)))),
                           cell_value (url (segs ! (r - (k + 1)))),
                           cell_value (Some (label (segs ! (r - (k + 1)))))] ! (c - 1))
               else cells ?ws (r, c))"
    using Cons.IH [OF rest fresh] by blast
  have "cells ws' (r, c) =
          (if k \<le> r \<and> r < k + length (sg # segs) \<and> c \<in> {1, 2, 3}
           then Some ([cell_value (segment_name ((sg # segs) ! (r - k))),
                       cell_value (url ((sg # segs) ! (r - k))),
                       cell_value (Some (label ((sg # segs) ! (r - k))))] ! (c - 1))
           else cells ws (r, c))" for r c
  proof (cases "r = k")
    case True
    then show ?thesis
      using c [of r c] by auto
  next
    case False
    then show ?thesis
      using c [of r c] by (auto simp: nth_Cons' Suc_diff_Suc)
  qed
  then show ?case
    using w step by simp
qed

lemma export_sheet_accepted: "exportable segs \<Longrightarrow> export_sheet segs = Inr (results_sheet segs)"
proof -
  assume ex: "exportable segs"
  let ?h = "\<lparr>title = ''results'',
     cells = [(1, 1) \<mapsto> Some ''segment_name'', (1, 2) \<mapsto> Some ''url'', (1, 3) \<mapsto> Some ''label''],
     column_width = [''A'' \<mapsto> 40, ''B'' \<mapsto> 80, ''C'' \<mapsto> 15]\<rparr>"
  have fresh: "\<forall>r c. 2 \<le> r \<longrightarrow> cells ?h (r, c) = None"
    by simp
  obtain ws' where w: "write_rows 2 segs ?h = Inr ws'" "title ws' = title ?h"
    "column_width ws' = column_width ?h"
    and c: "\<And>r c. cells ws' (r, c) =
              (if 2 \<le> r \<and> r < 2 + length segs \<and> c \<in> {1, 2, 3}
               then Some ([cell_value (segment_name (segs ! (r - 2))), cell_value (url (segs ! (r - 2))),
                           cell_value (Some (label (segs ! (r - 2))))] ! (c - 1))
               else cells ?h (r, c))"
    using write_rows_accepted [OF ex fresh] by blast
  have "cells ws' p = results_cells segs p" for p
  proof -
    obtain r c where p: "p = (r, c)"
      by (cases p)
    show ?thesis
      unfolding p using c [of r c] by (auto simp: results_cells_def)
  qed
  then have "cells ws' = results_cells segs"
    by (rule ext)
  then have "ws' = results_sheet segs"
    using w by (simp add: results_sheet_def)
  then show ?thesis
    using w by (simp add: export_sheet_def header_sheet_eq)
qed

lemma export_sheet_refused: "\<not> exportable segs \<Longrightarrow> export_sheet segs = Inl IllegalCharacterError"
  by (simp add: export_sheet_def header_sheet_eq write_rows_refused)

lemma build_workbook_eq:
  "build_workbook segs =
     (if exportable segs then Inr [results_sheet segs] else Inl IllegalCharacterError)"
  by (simp add: build_workbook_def export_sheet_accepted export_sheet_refused)

lemma results_cells_dom: "dom (results_cells segs) = {1..length segs + 1} \<times> {1, 2, 3}"
proof (rule set_eqI)
  fix p :: "nat \<times> nat"
  obtain r c where p: "p = (r, c)"
    by (cases p)
  show "p \<in> dom (results_cells segs) \<longleftrightarrow> p \<in> {1..length segs + 1} \<times> {1, 2, 3}"
    unfolding p by (auto simp: results_cells_def domIff split: if_splits)
qed

lemma results_cells_row:
  "i < length segs \<Longrightarrow>
   results_cells segs (i + 2, 1) = Some (cell_value (segment_name (segs ! i))) \<and>
   results_cells segs (i + 2, 2) = Some (cell_value (url (segs ! i))) \<and>
   results_cells segs (i + 2, 3) = Some (Some (take 32767 (label (segs ! i))))"
  by (simp add: results_cells_def cell_value_def)

lemma results_cells_header:
  "results_cells segs (1, 1) = Some (Some ''segment_name'')"
  "results_cells segs (1, 2) = Some (Some ''url'')"
  "results_cells segs (1, 3) = Some (Some ''label'')"
  by (simp_all add: results_cells_def)

section \<open>Facts about the commit handler\<close>

lemma api_commit_eq:
  "api_commit e s =
     (if \<not> exportable (fst (load_segments_from_db e s))
      then (Raised IllegalCharacterError,
            persist_loop e 0 (fst (load_segments_from_db e s)) (snd (load_segments_from_db e s)))
      else if export_fault e
      then (Raised ExportError,
            persist_loop e 0 (fst (load_segments_from_db e s)) (snd (load_segments_from_db e s)))
      else (Response 200 OkTrue,
            (persist_loop e 0 (fst (load_segments_from_db e s)) (snd (load_segments_from_db e s)))
              \<lparr>files := (files (persist_loop e 0 (fst (load_segments_from_db e s))
                                  (snd (load_segments_from_db e s))))
                          (XLSX_PATH e \<mapsto> [results_sheet (fst (load_segments_from_db e s))]),
                pending_labels := Map.empty\<rparr>))"
  by (simp add: api_commit_def wb_save_def case_prod_beta Let_def build_workbook_eq)

lemma api_commit_response:
  "fst (api_commit e s) =
     (if \<not> exportable (fst (load_segments_from_db e s)) then Raised IllegalCharacterError
      else if export_fault e then Raised ExportError
      else Response 200 OkTrue)"
  by (simp add: api_commit_eq)

lemma load_update_fault:
  "load_segments_from_db (e\<lparr>update_fault := f\<rparr>) s = load_segments_from_db e s"
  by (simp add: load_segments_from_db_def)

lemma api_commit_store:
  "store (snd (api_commit e s)) =
     map (\<lambda>r. if persisted e (pending_labels s) (fst (load_segments_from_db e s)) (row_id r)
               then r\<lparr>row_label := pending_labels s (row_id r)\<rparr> else r) (store s)"
proof -
  let ?segs = "fst (load_segments_from_db e s)"
  let ?s1 = "snd (load_segments_from_db e s)"
  have s1: "pending_labels ?s1 = pending_labels s" "store ?s1 = store s"
    by (simp_all add: load_segments_from_db_snd)
  have p: "persisted e (pending_labels s) ?segs k =
             (\<exists>j<length ?segs. seg_id (?segs ! j) = k \<and> pending_labels s k \<noteq> None
                \<and> \<not> update_fault e (0 + j))" for k
    by (auto simp: persisted_def)
  have "store (snd (api_commit e s)) = store (persist_loop e 0 ?segs ?s1)"
    by (simp add: api_commit_eq)
  also have "\<dots> = map (\<lambda>r. if (\<exists>j<length ?segs. seg_id (?segs ! j) = row_id r
                    \<and> pending_labels ?s1 (row_id r) \<noteq> None \<and> \<not> update_fault e (0 + j))
               then r\<lparr>row_label := pending_labels ?s1 (row_id r)\<rparr> else r) (store ?s1)"
    by (rule persist_loop_store)
  finally show ?thesis
    by (simp only: s1 p)
qed

lemma api_commit_log:
  assumes "i < length (fst (load_segments_from_db e s))"
    and "pending_labels s (seg_id (fst (load_segments_from_db e s) ! i)) \<noteq> None"
    and "update_fault e i"
  shows "UpdateFailed (seg_id (fst (load_segments_from_db e s) ! i)) StoreError
           \<in> set (log (snd (api_commit e s)))"
proof -
  have "pending_labels (snd (load_segments_from_db e s)) = pending_labels s"
    by (simp add: load_segments_from_db_snd)
  then have "UpdateFailed (seg_id (fst (load_segments_from_db e s) ! i)) StoreError
      \<in> set (log (persist_loop e 0 (fst (load_segments_from_db e s)) (snd (load_segments_from_db e s))))"
    using assms by (intro persist_loop_log) simp_all
  then show ?thesis
    by (simp add: api_commit_eq)
qed

lemma api_commit_files:
  "files (snd (api_commit e s)) =
     (if exportable (fst (load_segments_from_db e s)) \<and> \<not> export_fault e
      then (files s)(XLSX_PATH e \<mapsto> [results_sheet (fst (load_segments_from_db e s))])
      else files s)"
  by (simp add: api_commit_eq persist_loop_files load_segments_from_db_snd)

lemma api_commit_pending:
  "pending_labels (snd (api_commit e s)) =
     (if exportable (fst (load_segments_from_db e s)) \<and> \<not> export_fault e
      then Map.empty else pending_labels s)"
  by (simp add: api_commit_eq persist_loop_pending load_segments_from_db_snd)

lemma load_staged_label:
  assumes "i < length (fst (load_segments_from_db e s))"
    and "pending_labels s (seg_id (fst (load_segments_from_db e s) ! i)) = Some l"
  shows "label (fst (load_segments_from_db e s) ! i) = l"
proof -
  have "\<forall>sg \<in> set (fst (load_segments_from_db e s)).
          \<forall>l. pending_labels s (seg_id sg) = Some l \<longrightarrow> label sg = l"
    by (auto simp: load_segments_from_db_fst segment_of_row_id segment_of_row_staged)
  then show ?thesis
    using assms nth_mem by blast
qed

lemma load_staged: "fst (load_segments_from_db env_fail_first server_staged) =
    [\<lparr>seg_id = 7, segment_name = Some ''seg7'', url = Some ''http://x/7.png'', label = ''cat''\<rparr>,
     \<lparr>seg_id = 8, segment_name = Some ''seg8'', url = Some ''http://x/8.png'', label = ''dog''\<rparr>]"
  by (simp add: load_segments_from_db_fst env_fail_first_def env0_def server_staged_def server0_def
      row7_def row8_def segment_of_row_def)

lemma accepted_examples:
  "accepted (Some ''seg7'')" "accepted (Some ''seg8'')" "accepted (Some ''http://x/7.png'')"
  "accepted (Some ''http://x/8.png'')" "accepted (Some ''cat'')" "accepted (Some ''dog'')"
  "accepted (Some [])" "\<not> accepted (Some ctrl_label)"
  by (simp_all add: accepted_def illegal_char_def ctrl_label_def)

lemma exportable_staged: "exportable (fst (load_segments_from_db env_fail_first server_staged))"
  unfolding load_staged by (simp add: exportable_def accepted_examples)

section \<open>Properties of the documented behaviour\<close>

text \<open>
  Claim C1. The loader is documented to return the rows whose stored label is null or the
  empty string. The code does not: the filter of its query only tests for null. On a
  store whose only row has the empty string as its label, with nothing staged and no
  fault, it returns no segment. Such a row arises from the handlers themselves: after
  the empty label is staged for row 7 and committed, the row holds the empty string and
  the next listing omits it.
\<close>

theorem load_segments_omits_empty_label:
  "fst (load_segments_from_db env0
         \<lparr>pending_labels = Map.empty, store = [row9], files = Map.empty, log = []\<rparr>) = [] \<and>
   store (snd (api_commit env0
     (snd (api_pending env0 (Some (JObj [(''id'', JInt 7), (''label'', JStr [])])) server0)))) =
     [row7\<lparr>row_label := Some []\<rparr>, row8] \<and>
   fst (api_segments env0 (snd (api_commit env0
     (snd (api_pending env0 (Some (JObj [(''id'', JInt 7), (''label'', JStr [])])) server0))))) =
     Response 200 (SegmentsBody
       [\<lparr>seg_id = 8, segment_name = Some ''seg8'', url = Some ''http://x/8.png'', label = []\<rparr>])"
proof -
  let ?s = "snd (api_pending env0 (Some (JObj [(''id'', JInt 7), (''label'', JStr [])])) server0)"
  have s: "?s = server0\<lparr>pending_labels := [7 \<mapsto> []]\<rparr>"
    by (simp add: api_pending_JObj server0_def)
  have l: "fst (load_segments_from_db env0 (server0\<lparr>pending_labels := [7 \<mapsto> []]\<rparr>)) =
      [\<lparr>seg_id = 7, segment_name = Some ''seg7'', url = Some ''http://x/7.png'', label = []\<rparr>,
       \<lparr>seg_id = 8, segment_name = Some ''seg8'', url = Some ''http://x/8.png'', label = []\<rparr>]"
    by (simp add: load_segments_from_db_fst env0_def server0_def row7_def row8_def
        segment_of_row_def or_empty_def)
  have p7: "persisted env0 [7 \<mapsto> []]
      [\<lparr>seg_id = 7, segment_name = Some ''seg7'', url = Some ''http://x/7.png'', label = []\<rparr>,
       \<lparr>seg_id = 8, segment_name = Some ''seg8'', url = Some ''http://x/8.png'', label = []\<rparr>] 7"
    by (simp add: persisted_def env0_def upt_rec)
  have p8: "\<not> persisted env0 [7 \<mapsto> []]
      [\<lparr>seg_id = 7, segment_name = Some ''seg7'', url = Some ''http://x/7.png'', label = []\<rparr>,
       \<lparr>seg_id = 8, segment_name = Some ''seg8'', url = Some ''http://x/8.png'', label = []\<rparr>] 8"
    by (simp add: persisted_def env0_def upt_rec)
  have st: "store (snd (api_commit env0 ?s)) = [row7\<lparr>row_label := Some []\<rparr>, row8]"
    unfolding s api_commit_store l using p7 p8
    by (simp add: server0_def row7_def row8_def)
  have rf: "\<not> read_fault env0"
    by (simp add: env0_def)
  have ex: "exportable (fst (load_segments_from_db env0 ?s))"
    unfolding s l by (simp add: exportable_def accepted_examples)
  have pe: "pending_labels (snd (api_commit env0 ?s)) = Map.empty"
    using ex by (simp add: api_commit_pending env0_def)
  have "fst (api_segments env0 (snd (api_commit env0 ?s))) =
     Response 200 (SegmentsBody
       [\<lparr>seg_id = 8, segment_name = Some ''seg8'', url = Some ''http://x/8.png'', label = []\<rparr>])"
    using rf by (simp add: api_segments_eq load_segments_from_db_fst st pe row7_def row8_def
        segment_of_row_def or_empty_def)
  moreover have "fst (load_segments_from_db env0
         \<lparr>pending_labels = Map.empty, store = [row9], files = Map.empty, log = []\<rparr>) = []"
    by (simp add: load_segments_from_db_def select_label_is_null_def env0_def row9_def)
  ultimately show ?thesis
    using st by blast
qed

text \<open>
  Claim C2. For every stage request whose id parses to \<open>n\<close>: when \<open>n \<le> 0\<close> the answer
  is status 400 with the body \<open>{ok: false, error: "invalid segment_id"}\<close> and the state
  is unchanged; when \<open>n > 0\<close> the answer is \<open>{ok: true}\<close> and the staging map entry of
  \<open>n\<close> is overwritten or inserted with the given label, whatever rows the store holds.
\<close>
theorem api_pending_validates:
  assumes "segment_id_of e req = Inr n"
  shows "\<exists>lbl. label_of e req = Inr lbl \<and>
           (n \<le> 0 \<longrightarrow> api_pending e req s = (Response 400 (OkFalse ''invalid segment_id''), s)) \<and>
           (0 < n \<longrightarrow> api_pending e req s =
              (Response 200 OkTrue, s\<lparr>pending_labels := (pending_labels s)(n \<mapsto> lbl)\<rparr>))"
proof -
  obtain lbl where "label_of e req = Inr lbl"
    using segment_id_of_label_of [OF assms] by blast
  then show ?thesis
    using assms by (auto simp: api_pending_def)
qed

theorem api_pending_validates_witness:
  "api_pending env0 (Some (JObj [(''id'', JInt 42), (''label'', JStr ''cat'')])) (server0\<lparr>store := []\<rparr>) =
     (Response 200 OkTrue, server0\<lparr>store := [], pending_labels := [42 \<mapsto> ''cat'']\<rparr>)
   \<and> api_pending env0 (Some (JObj [(''id'', JInt (- 5)), (''label'', JStr ''cat'')])) server0 =
     (Response 400 (OkFalse ''invalid segment_id''), server0)"
proof -
  have a: "segment_id_of env0 (Some (JObj [(''id'', JInt 42), (''label'', JStr ''cat'')])) = Inr 42"
    by (simp add: segment_id_of_JObj)
  have b: "segment_id_of env0 (Some (JObj [(''id'', JInt (- 5)), (''label'', JStr ''cat'')])) = Inr (- 5)"
    by (simp add: segment_id_of_JObj)
  show ?thesis
    using api_pending_validates [OF a, of "server0\<lparr>store := []\<rparr>"]
      api_pending_validates [OF b, of server0]
    by (simp add: label_of_JObj server0_def)
qed

text \<open>
  Claim C6. A list-segments request always answers 200 with a body \<open>{segments: rows}\<close>,
  never a propagated error; when contacting the store fails, \<open>rows\<close> is empty.
\<close>
theorem api_segments_fail_soft:
  "\<exists>rows. fst (api_segments e s) = Response 200 (SegmentsBody rows) \<and> (read_fault e \<longrightarrow> rows = [])"
  by (simp add: api_segments_eq load_segments_from_db_fst)

theorem api_segments_fail_soft_witness:
  "fst (api_segments (env0\<lparr>read_fault := True\<rparr>) server0) = Response 200 (SegmentsBody [])"
  using api_segments_fail_soft [of "env0\<lparr>read_fault := True\<rparr>" server0]
  by auto

text \<open>
  Claim C9. Neither the loader nor a list-segments request changes the staging map; they
  leave the rows of the store and the files untouched as well.
\<close>
theorem load_segments_keeps_staging:
  "pending_labels (snd (load_segments_from_db e s)) = pending_labels s \<and>
   store (snd (load_segments_from_db e s)) = store s \<and>
   files (snd (load_segments_from_db e s)) = files s \<and>
   pending_labels (snd (api_segments e s)) = pending_labels s \<and>
   store (snd (api_segments e s)) = store s \<and>
   files (snd (api_segments e s)) = files s"
  by (simp add: api_segments_eq load_segments_from_db_snd)

text \<open>
  Claim C7. Staging is last-write-wins and idempotent. After two stage requests for the
  same id \<open>n\<close>, the staging map holds the label of the second, and every segment with
  id \<open>n\<close> of a later listing shows that label. Repeating a stage request gives the
  same answer and the same state as making it once. Every presented segment whose id has
  a staging entry shows the staged label, whatever label the row stores.
\<close>
theorem staging_last_write_wins:
  assumes "segment_id_of e req1 = Inr n" and "segment_id_of e req2 = Inr n" and "0 < n"
    and "label_of e req2 = Inr l2"
  shows "pending_labels (snd (api_pending e req2 (snd (api_pending e req1 s)))) n = Some l2 \<and>
         (\<forall>sg \<in> set (fst (load_segments_from_db e'
                             (snd (api_pending e req2 (snd (api_pending e req1 s)))))).
            seg_id sg = n \<longrightarrow> label sg = l2) \<and>
         api_pending e req (snd (api_pending e req s')) = api_pending e req s' \<and>
         (\<forall>sg \<in> set (overlay_rows pending rows []).
            \<forall>l. pending (seg_id sg) = Some l \<longrightarrow> label sg = l)"
proof -
  obtain l1 where l1: "label_of e req1 = Inr l1"
    using segment_id_of_label_of [OF assms(1)] by blast
  have p: "pending_labels (snd (api_pending e req2 (snd (api_pending e req1 s)))) n = Some l2"
    using assms l1 by (simp add: api_pending_def)
  have "\<forall>sg \<in> set (fst (load_segments_from_db e'
                             (snd (api_pending e req2 (snd (api_pending e req1 s)))))).
            seg_id sg = n \<longrightarrow> label sg = l2"
    using p by (auto simp: load_segments_from_db_fst segment_of_row_id segment_of_row_staged)
  moreover have "\<forall>sg \<in> set (overlay_rows pending rows []).
            \<forall>l. pending (seg_id sg) = Some l \<longrightarrow> label sg = l"
    by (auto simp: overlay_rows_eq segment_of_row_id segment_of_row_staged)
  ultimately show ?thesis
    using p by (simp add: api_pending_twice)
qed

theorem staging_last_write_wins_witness:
  "fst (api_segments env0
     (snd (api_pending env0 (Some (JObj [(''id'', JInt 7), (''label'', JStr ''dog'')]))
       (snd (api_pending env0 (Some (JObj [(''id'', JInt 7), (''label'', JStr ''cat'')])) server0))))) =
   Response 200 (SegmentsBody
     [\<lparr>seg_id = 7, segment_name = Some ''seg7'', url = Some ''http://x/7.png'', label = ''dog''\<rparr>,
      \<lparr>seg_id = 8, segment_name = Some ''seg8'', url = Some ''http://x/8.png'', label = []\<rparr>]) \<and>
   overlay_rows [5 \<mapsto> ''cat''] [row5] [] =
     [\<lparr>seg_id = 5, segment_name = Some ''seg5'', url = Some ''http://x/5.png'', label = ''cat''\<rparr>]"
proof -
  have a: "segment_id_of env0 (Some (JObj [(''id'', JInt 7), (''label'', JStr ''cat'')])) = Inr 7"
    by (simp add: segment_id_of_JObj)
  have b: "segment_id_of env0 (Some (JObj [(''id'', JInt 7), (''label'', JStr ''dog'')])) = Inr 7"
    by (simp add: segment_id_of_JObj)
  have c: "label_of env0 (Some (JObj [(''id'', JInt 7), (''label'', JStr ''dog'')])) = Inr ''dog''"
    by (simp add: label_of_JObj)
  have d: "(0::int) < 7"
    by simp
  show ?thesis
    using staging_last_write_wins [OF a b d c, where s = server0 and e' = env0 and req = None
        and s' = server0 and pending = "[5 \<mapsto> ''cat'']" and rows = "[row5]"]
    by (simp add: api_segments_eq load_segments_from_db_fst api_pending_JObj server0_def env0_def
        segment_of_row_def or_empty_def row5_def row7_def row8_def)
qed

text \<open>
  Claim C10. The stage endpoint coerces its fields. A missing or falsy body, and a body
  without an id, give the 400 answer. A fractional id is truncated by \<^verbatim>\<open>int()\<close> and
  staged under the truncated key; 2.9 truncates to 2. An id that \<^verbatim>\<open>int()\<close> cannot
  convert, such as null or the string "abc", makes the handler raise instead of
  answering 400. Any JSON value is accepted as the label and staged as its \<^verbatim>\<open>str()\<close>.
\<close>
theorem api_pending_coerces:
  "api_pending e None s = (Response 400 (OkFalse ''invalid segment_id''), s) \<and>
   (\<not> py_truthy b \<longrightarrow> api_pending e (Some b) s = (Response 400 (OkFalse ''invalid segment_id''), s)) \<and>
   (map_of kvs ''id'' = None \<longrightarrow>
      api_pending e (Some (JObj kvs)) s = (Response 400 (OkFalse ''invalid segment_id''), s)) \<and>
   (map_of kvs ''id'' = Some (JFloat (Finite q)) \<and> 0 < trunc_rat q \<and> map_of kvs ''label'' = Some lv \<longrightarrow>
      api_pending e (Some (JObj kvs)) s =
        (Response 200 OkTrue,
         s\<lparr>pending_labels := (pending_labels s)(trunc_rat q \<mapsto> py_str (repr e) lv)\<rparr>)) \<and>
   trunc_rat (29 / 10) = 2 \<and>
   (map_of kvs ''id'' = Some v \<and> py_int (int_max_str_digits e) v = Inl err \<longrightarrow>
      api_pending e (Some (JObj kvs)) s = (Raised err, s)) \<and>
   py_int (int_max_str_digits e) JNull = Inl TypeError \<and>
   py_int (int_max_str_digits e) (JStr ''abc'') = Inl ValueError \<and>
   (map_of kvs ''id'' = Some v \<and> py_int (int_max_str_digits e) v = Inr n \<and> 0 < n \<and>
    map_of kvs ''label'' = Some lv \<longrightarrow>
      api_pending e (Some (JObj kvs)) s =
        (Response 200 OkTrue, s\<lparr>pending_labels := (pending_labels s)(n \<mapsto> py_str (repr e) lv)\<rparr>))"
  by (auto simp: api_pending_JObj api_pending_None api_pending_falsy int_of_str_abc trunc_ex)

theorem api_pending_coerces_witness:
  "api_pending env0 (Some (JArr [])) server0 = (Response 400 (OkFalse ''invalid segment_id''), server0) \<and>
   api_pending env0 (Some (JObj [(''label'', JStr ''cat'')])) server0 =
     (Response 400 (OkFalse ''invalid segment_id''), server0) \<and>
   api_pending env0 (Some (JObj [(''id'', JFloat (Finite (29 / 10))), (''label'', JInt 5)])) server0 =
     (Response 200 OkTrue, server0\<lparr>pending_labels := [2 \<mapsto> ''5'']\<rparr>) \<and>
   api_pending env0 (Some (JObj [(''id'', JNull), (''label'', JStr ''cat'')])) server0 =
     (Raised TypeError, server0) \<and>
   api_pending env0 (Some (JObj [(''id'', JStr ''abc''), (''label'', JStr ''cat'')])) server0 =
     (Raised ValueError, server0) \<and>
   api_pending env0 (Some (JObj [(''id'', JStr [CHR 0x1F, CHR ''1'', CHR ''2'']),
                                  (''label'', JStr ''cat'')])) server0 =
     (Raised ValueError, server0) \<and>
   api_pending env0 (Some (JObj [(''id'', JStr [CHR 0xA0, CHR ''1'', CHR ''_'', CHR ''2'', CHR 0x0A]),
                                  (''label'', JBool True)])) server0 =
     (Response 200 OkTrue, server0\<lparr>pending_labels := [12 \<mapsto> ''True'']\<rparr>)"
proof -
  have t: "trunc_rat (29 / 10) = 2"
    by (rule trunc_ex)
  have m: "int_max_str_digits env0 = 4300"
    by (simp add: env0_def)
  have i12: "int_of_str 4300 [CHR 0xA0, CHR ''1'', CHR ''_'', CHR ''2'', CHR 0x0A] = Inr 12"
    by (simp add: int_of_str_def int_of_digits_def over_limit_def strip_def is_space_def
        space_to_ascii_def digit_val_def)
  have i1f: "int_of_str 4300 [CHR 0x1F, CHR ''1'', CHR ''2''] = Inl ValueError"
    by (simp add: int_of_str_def int_of_digits_def over_limit_def strip_def is_space_def
        space_to_ascii_def digit_val_def)
  have s5: "str_of_int 5 = ''5''"
    by code_simp
  show ?thesis
    using api_pending_coerces [where e = env0 and s = server0 and b = "JArr []"
          and kvs = "[(''label'', JStr ''cat'')]"]
      api_pending_coerces [where e = env0 and s = server0
          and kvs = "[(''id'', JFloat (Finite (29 / 10))), (''label'', JInt 5)]"
          and q = "29 / 10" and lv = "JInt 5"]
      api_pending_coerces [where e = env0 and s = server0
          and kvs = "[(''id'', JNull), (''label'', JStr ''cat'')]" and v = JNull and err = TypeError]
      api_pending_coerces [where e = env0 and s = server0
          and kvs = "[(''id'', JStr ''abc''), (''label'', JStr ''cat'')]"
          and v = "JStr ''abc''" and err = ValueError]
      api_pending_coerces [where e = env0 and s = server0
          and kvs = "[(''id'', JStr [CHR 0x1F, CHR ''1'', CHR ''2'']), (''label'', JStr ''cat'')]"
          and v = "JStr [CHR 0x1F, CHR ''1'', CHR ''2'']" and err = ValueError]
      api_pending_coerces [where e = env0 and s = server0
          and kvs = "[(''id'', JStr [CHR 0xA0, CHR ''1'', CHR ''_'', CHR ''2'', CHR 0x0A]),
                      (''label'', JBool True)]"
          and v = "JStr [CHR 0xA0, CHR ''1'', CHR ''_'', CHR ''2'', CHR 0x0A]" and n = 12
          and lv = "JBool True"]
    by (simp add: t m i12 i1f s5 server0_def)
qed

text \<open>
  Claim C3. During a commit, a row of the store receives its staged label exactly when
  some iteration of the loop meets a segment with its id, a label is staged for that id
  and the update of that iteration does not fail; every other row is left as it was. So
  a failed update neither stops the later updates nor undoes the earlier ones. Every
  failed update is printed. The answer does not depend on which updates fail, and it is
  \<open>{ok: true}\<close> whenever the export is written, that is when openpyxl accepts every
  exported string and the file can be written.
\<close>
theorem commit_persists_independently:
  "store (snd (api_commit e s)) =
     map (\<lambda>r. if persisted e (pending_labels s) (fst (load_segments_from_db e s)) (row_id r)
               then r\<lparr>row_label := pending_labels s (row_id r)\<rparr> else r) (store s) \<and>
   (\<forall>i \<in> set [0..<length (fst (load_segments_from_db e s))].
      pending_labels s (seg_id (fst (load_segments_from_db e s) ! i)) \<noteq> None \<and> update_fault e i \<longrightarrow>
      UpdateFailed (seg_id (fst (load_segments_from_db e s) ! i)) StoreError
        \<in> set (log (snd (api_commit e s)))) \<and>
   (\<not> export_fault e \<and> exportable (fst (load_segments_from_db e s)) \<longrightarrow>
      fst (api_commit e s) = Response 200 OkTrue) \<and>
   fst (api_commit (e\<lparr>update_fault := f\<rparr>) s) = fst (api_commit e s)"
proof -
  have "fst (api_commit (e\<lparr>update_fault := f\<rparr>) s) = fst (api_commit e s)"
    by (simp add: api_commit_response load_update_fault)
  moreover have "\<not> export_fault e \<and> exportable (fst (load_segments_from_db e s)) \<longrightarrow>
      fst (api_commit e s) = Response 200 OkTrue"
    by (simp add: api_commit_response)
  moreover have "\<forall>i \<in> set [0..<length (fst (load_segments_from_db e s))].
      pending_labels s (seg_id (fst (load_segments_from_db e s) ! i)) \<noteq> None \<and> update_fault e i \<longrightarrow>
      UpdateFailed (seg_id (fst (load_segments_from_db e s) ! i)) StoreError
        \<in> set (log (snd (api_commit e s)))"
    using api_commit_log [of _ e s] by auto
  ultimately show ?thesis
    using api_commit_store [of e s] by blast
qed

theorem commit_persists_independently_witness:
  "store (snd (api_commit env_fail_first server_staged)) = [row7, row8\<lparr>row_label := Some ''dog''\<rparr>] \<and>
   UpdateFailed 7 StoreError \<in> set (log (snd (api_commit env_fail_first server_staged))) \<and>
   fst (api_commit env_fail_first server_staged) = Response 200 OkTrue"
proof -
  note t = commit_persists_independently [of env_fail_first server_staged "\<lambda>i. False"]
  have p7: "\<not> persisted env_fail_first (pending_labels server_staged)
              (fst (load_segments_from_db env_fail_first server_staged)) 7"
    unfolding load_staged by (simp add: persisted_def env_fail_first_def upt_rec)
  have p8: "persisted env_fail_first (pending_labels server_staged)
              (fst (load_segments_from_db env_fail_first server_staged)) 8"
    unfolding load_staged by (simp add: persisted_def env_fail_first_def server_staged_def upt_rec)
  have f: "update_fault env_fail_first 0" "\<not> export_fault env_fail_first"
    by (simp_all add: env_fail_first_def env0_def)
  have st: "store server_staged = [row7, row8]" "pending_labels server_staged 8 = Some ''dog''"
    "row_id row7 = 7" "row_id row8 = 8"
    by (simp_all add: server_staged_def server0_def row7_def row8_def)
  have i0: "0 \<in> set [0..<length (fst (load_segments_from_db env_fail_first server_staged))]"
    unfolding load_staged by simp
  have sg: "seg_id (fst (load_segments_from_db env_fail_first server_staged) ! 0) = 7"
    unfolding load_staged by simp
  have pn: "pending_labels server_staged
              (seg_id (fst (load_segments_from_db env_fail_first server_staged) ! 0)) \<noteq> None"
    unfolding load_staged by (simp add: server_staged_def)
  have "UpdateFailed (seg_id (fst (load_segments_from_db env_fail_first server_staged) ! 0)) StoreError
          \<in> set (log (snd (api_commit env_fail_first server_staged)))"
    using t i0 pn f(1) by blast
  then have "UpdateFailed 7 StoreError \<in> set (log (snd (api_commit env_fail_first server_staged)))"
    by (simp only: sg)
  moreover have "store (snd (api_commit env_fail_first server_staged)) =
      [row7, row8\<lparr>row_label := Some ''dog''\<rparr>]"
    using t p7 p8 st by simp
  moreover have "fst (api_commit env_fail_first server_staged) = Response 200 OkTrue"
    using t f(2) exportable_staged by blast
  ultimately show ?thesis
    by blast
qed

text \<open>
  Claim C4. When a commit writes the spreadsheet, the file at the fixed path is a single
  sheet whose rows are the segments loaded at the start of the commit, field by field and
  in order, each string cut at 32767 characters as openpyxl does. A segment with a staged
  label is exported with that label, also when its update failed. The store is not read
  again.
\<close>
theorem commit_exports_loaded_sequence:
  assumes "\<not> export_fault e" and "exportable (fst (load_segments_from_db e s))"
  shows "\<exists>ws. files (snd (api_commit e s)) (XLSX_PATH e) = Some [ws] \<and>
           title ws = ''results'' \<and>
           dom (cells ws) = {1..length (fst (load_segments_from_db e s)) + 1} \<times> {1, 2, 3} \<and>
           (\<forall>i \<in> set [0..<length (fst (load_segments_from_db e s))].
              cells ws (i + 2, 1) =
                Some (map_option (take 32767) (segment_name (fst (load_segments_from_db e s) ! i))) \<and>
              cells ws (i + 2, 2) =
                Some (map_option (take 32767) (url (fst (load_segments_from_db e s) ! i))) \<and>
              cells ws (i + 2, 3) =
                Some (Some (take 32767 (label (fst (load_segments_from_db e s) ! i))))) \<and>
           (\<forall>i \<in> set [0..<length (fst (load_segments_from_db e s))].
              \<forall>l. pending_labels s (seg_id (fst (load_segments_from_db e s) ! i)) = Some l \<longrightarrow>
                cells ws (i + 2, 3) = Some (Some (take 32767 l)))"
proof -
  let ?segs = "fst (load_segments_from_db e s)"
  let ?ws = "results_sheet ?segs"
  have fl: "files (snd (api_commit e s)) (XLSX_PATH e) = Some [?ws]"
    using assms by (simp add: api_commit_files)
  have ttl: "title ?ws = ''results''"
    by (simp add: results_sheet_def)
  have dm: "dom (cells ?ws) = {1..length ?segs + 1} \<times> {1, 2, 3}"
    by (simp add: results_sheet_def results_cells_dom)
  have rows: "\<forall>i \<in> set [0..<length ?segs].
      cells ?ws (i + 2, 1) = Some (map_option (take 32767) (segment_name (?segs ! i))) \<and>
      cells ?ws (i + 2, 2) = Some (map_option (take 32767) (url (?segs ! i))) \<and>
      cells ?ws (i + 2, 3) = Some (Some (take 32767 (label (?segs ! i))))"
    using results_cells_row [of _ ?segs] by (simp add: results_sheet_def cell_value_def)
  have staged: "\<forall>i \<in> set [0..<length ?segs].
      \<forall>l. pending_labels s (seg_id (?segs ! i)) = Some l \<longrightarrow>
        cells ?ws (i + 2, 3) = Some (Some (take 32767 l))"
  proof (intro ballI allI impI)
    fix i l
    assume i: "i \<in> set [0..<length ?segs]" and l: "pending_labels s (seg_id (?segs ! i)) = Some l"
    have "i < length ?segs"
      using i by simp
    then have "label (?segs ! i) = l"
      using l by (rule load_staged_label)
    then show "cells ?ws (i + 2, 3) = Some (Some (take 32767 l))"
      using rows i by blast
  qed
  from fl ttl dm rows staged show ?thesis
    by blast
qed

theorem commit_exports_loaded_sequence_witness:
  "(\<exists>ws. files (snd (api_commit env_fail_first server_staged)) ''/srv/labeler/segments.xlsx'' = Some [ws] \<and>
      cells ws (2, 1) = Some (Some ''seg7'') \<and>
      cells ws (2, 2) = Some (Some ''http://x/7.png'') \<and>
      cells ws (2, 3) = Some (Some ''cat'')) \<and>
   map row_label (store (snd (api_commit env_fail_first server_staged))) = [None, Some ''dog''] \<and>
   fst (load_segments_from_db env0 (snd (api_commit env_fail_first server_staged))) =
     [\<lparr>seg_id = 7, segment_name = Some ''seg7'', url = Some ''http://x/7.png'', label = []\<rparr>]"
proof -
  let ?segs = "fst (load_segments_from_db env_fail_first server_staged)"
  have f: "\<not> export_fault env_fail_first"
    by (simp add: env_fail_first_def env0_def)
  have path: "XLSX_PATH env_fail_first = ''/srv/labeler/segments.xlsx''"
    by (simp add: XLSX_PATH_def path_join_def env_fail_first_def env0_def)
  have i0: "0 \<in> set [0..<length ?segs]"
    unfolding load_staged by simp
  have sg: "pending_labels server_staged (seg_id (?segs ! 0)) = Some ''cat''"
    unfolding load_staged by (simp add: server_staged_def)
  have n0: "segment_name (?segs ! 0) = Some ''seg7''" "url (?segs ! 0) = Some ''http://x/7.png''"
    unfolding load_staged by simp_all
  have e2: "(0::nat) + 2 = 2"
    by simp
  have tk: "take 32767 ''cat'' = ''cat''" "map_option (take 32767) (Some ''seg7'') = Some ''seg7''"
    "map_option (take 32767) (Some ''http://x/7.png'') = Some ''http://x/7.png''"
    by simp_all
  obtain ws where fl: "files (snd (api_commit env_fail_first server_staged))
        (XLSX_PATH env_fail_first) = Some [ws]"
    and rows: "\<forall>i \<in> set [0..<length ?segs].
              cells ws (i + 2, 1) = Some (map_option (take 32767) (segment_name (?segs ! i))) \<and>
              cells ws (i + 2, 2) = Some (map_option (take 32767) (url (?segs ! i))) \<and>
              cells ws (i + 2, 3) = Some (Some (take 32767 (label (?segs ! i))))"
    and staged: "\<forall>i \<in> set [0..<length ?segs].
              \<forall>l. pending_labels server_staged (seg_id (?segs ! i)) = Some l \<longrightarrow>
                cells ws (i + 2, 3) = Some (Some (take 32767 l))"
    using commit_exports_loaded_sequence [OF f exportable_staged] by blast
  have "cells ws (0 + 2, 3) = Some (Some (take 32767 ''cat''))"
    using staged i0 sg by blast
  then have c3: "cells ws (2, 3) = Some (Some ''cat'')"
    by (simp only: e2 tk)
  have "cells ws (0 + 2, 1) = Some (map_option (take 32767) (segment_name (?segs ! 0))) \<and>
        cells ws (0 + 2, 2) = Some (map_option (take 32767) (url (?segs ! 0)))"
    using rows i0 by blast
  then have c12: "cells ws (2, 1) = Some (Some ''seg7'')" "cells ws (2, 2) = Some (Some ''http://x/7.png'')"
    by (simp_all only: e2 n0 tk)
  have c1: "\<exists>ws. files (snd (api_commit env_fail_first server_staged)) ''/srv/labeler/segments.xlsx'' = Some [ws] \<and>
      cells ws (2, 1) = Some (Some ''seg7'') \<and>
      cells ws (2, 2) = Some (Some ''http://x/7.png'') \<and>
      cells ws (2, 3) = Some (Some ''cat'')"
    using fl c12 c3 unfolding path by blast
  have p7: "\<not> persisted env_fail_first (pending_labels server_staged) ?segs 7"
    unfolding load_staged by (simp add: persisted_def env_fail_first_def upt_rec)
  have p8: "persisted env_fail_first (pending_labels server_staged) ?segs 8"
    unfolding load_staged by (simp add: persisted_def env_fail_first_def server_staged_def upt_rec)
  have st: "store (snd (api_commit env_fail_first server_staged)) = [row7, row8\<lparr>row_label := Some ''dog''\<rparr>]"
    using p7 p8 by (simp add: api_commit_store server_staged_def server0_def row7_def row8_def)
  have pe: "pending_labels (snd (api_commit env_fail_first server_staged)) = Map.empty"
    using f exportable_staged by (simp add: api_commit_pending)
  have c3': "map row_label (store (snd (api_commit env_fail_first server_staged))) = [None, Some ''dog'']"
    by (simp add: st row7_def row8_def)
  have c4: "fst (load_segments_from_db env0 (snd (api_commit env_fail_first server_staged))) =
     [\<lparr>seg_id = 7, segment_name = Some ''seg7'', url = Some ''http://x/7.png'', label = []\<rparr>]"
    by (simp add: load_segments_from_db_fst st pe env0_def row7_def row8_def
        segment_of_row_def or_empty_def)
  from c1 c3' c4 show ?thesis
    by blast
qed

text \<open>
  Claim C5, as amended. A commit whose spreadsheet is written, that is one in which
  openpyxl accepts every exported string and the file can be written, clears the whole
  staging map, whichever updates failed. The claim as stated, for every commit, fails:
  when the export raises, the handler stops before \<^verbatim>\<open>pending_labels.clear()\<close>.
\<close>
theorem commit_clears_staging:
  "\<not> export_fault e \<Longrightarrow> exportable (fst (load_segments_from_db e s)) \<Longrightarrow>
   pending_labels (snd (api_commit e s)) = Map.empty"
  by (simp add: api_commit_pending)

theorem commit_clears_staging_witness:
  "\<not> export_fault env_fail_first \<and>
   store (snd (api_commit env_fail_first server_staged)) = [row7, row8\<lparr>row_label := Some ''dog''\<rparr>] \<and>
   pending_labels (snd (api_commit env_fail_first server_staged)) 7 = None \<and>
   pending_labels (snd (api_commit env_fail_first server_staged)) 8 = None"
proof -
  have f: "\<not> export_fault env_fail_first"
    by (simp add: env_fail_first_def env0_def)
  have p7: "\<not> persisted env_fail_first (pending_labels server_staged)
              (fst (load_segments_from_db env_fail_first server_staged)) 7"
    unfolding load_staged by (simp add: persisted_def env_fail_first_def upt_rec)
  have p8: "persisted env_fail_first (pending_labels server_staged)
              (fst (load_segments_from_db env_fail_first server_staged)) 8"
    unfolding load_staged by (simp add: persisted_def env_fail_first_def server_staged_def upt_rec)
  have st: "store (snd (api_commit env_fail_first server_staged)) = [row7, row8\<lparr>row_label := Some ''dog''\<rparr>]"
    using p7 p8 by (simp add: api_commit_store server_staged_def server0_def row7_def row8_def)
  show ?thesis
    using commit_clears_staging [OF f exportable_staged] f st by simp
qed

text \<open>
  With labels staged for the ids 7 and 8 and a failing spreadsheet write, the commit
  raises and the staging map still holds the label of 7.
\<close>

theorem commit_keeps_staging_when_export_fails:
  "fst (api_commit (env0\<lparr>export_fault := True\<rparr>) server_staged) = Raised ExportError \<and>
   pending_labels (snd (api_commit (env0\<lparr>export_fault := True\<rparr>) server_staged)) 7 = Some ''cat''"
proof -
  have l: "fst (load_segments_from_db (env0\<lparr>export_fault := True\<rparr>) server_staged) =
      fst (load_segments_from_db env_fail_first server_staged)"
    by (simp add: load_segments_from_db_def env_fail_first_def)
  have ex: "exportable (fst (load_segments_from_db (env0\<lparr>export_fault := True\<rparr>) server_staged))"
    unfolding l by (rule exportable_staged)
  show ?thesis
    using ex by (simp add: api_commit_response api_commit_pending server_staged_def)
qed

text \<open>
  Claim C8, as amended. For every sequence of segments whose exported strings openpyxl
  accepts, the exporter builds a workbook with a single sheet titled "results", the
  header row segment_name, url, label, the column widths 40, 80 and 15, and one row per
  segment in order, starting at row 2, each string cut at 32767 characters; there are no
  other cells. Saving replaces whatever the path held before. The empty sequence is
  always accepted and gives the header alone. The claim as stated, for every sequence,
  fails: a string with a control character makes the export raise.
\<close>
theorem export_sheet_layout:
  "(exportable segs \<longrightarrow>
      (\<exists>ws. build_workbook segs = Inr [ws] \<and>
         title ws = ''results'' \<and>
         column_width ws = [''A'' \<mapsto> 40, ''B'' \<mapsto> 80, ''C'' \<mapsto> 15] \<and>
         cells ws (1, 1) = Some (Some ''segment_name'') \<and>
         cells ws (1, 2) = Some (Some ''url'') \<and>
         cells ws (1, 3) = Some (Some ''label'') \<and>
         (\<forall>i \<in> set [0..<length segs].
            cells ws (i + 2, 1) = Some (map_option (take 32767) (segment_name (segs ! i))) \<and>
            cells ws (i + 2, 2) = Some (map_option (take 32767) (url (segs ! i))) \<and>
            cells ws (i + 2, 3) = Some (Some (take 32767 (label (segs ! i))))) \<and>
         dom (cells ws) = {1..length segs + 1} \<times> {1, 2, 3} \<and>
         wb_save False [ws] path fs = Inr (fs(path \<mapsto> [ws])) \<and>
         (\<not> export_fault e \<and> fst (load_segments_from_db e s) = segs \<longrightarrow>
            fst (api_commit e s) = Response 200 OkTrue \<and>
            files (snd (api_commit e s)) = (files s)(XLSX_PATH e \<mapsto> [ws])))) \<and>
   (\<exists>ws. build_workbook [] = Inr [ws] \<and> dom (cells ws) = {1} \<times> {1, 2, 3})"
proof -
  have empty: "\<exists>ws. build_workbook [] = Inr [ws] \<and> dom (cells ws) = {1} \<times> {1, 2, 3}"
  proof -
    have "exportable []"
      by (simp add: exportable_def)
    then have "build_workbook [] = Inr [results_sheet []]"
      by (simp add: build_workbook_eq)
    moreover have "dom (cells (results_sheet [])) = {1} \<times> {1, 2, 3}"
      using results_cells_dom [of "[]"] by (simp add: results_sheet_def)
    ultimately show ?thesis
      by blast
  qed
  have main: "\<exists>ws. build_workbook segs = Inr [ws] \<and>
         title ws = ''results'' \<and>
         column_width ws = [''A'' \<mapsto> 40, ''B'' \<mapsto> 80, ''C'' \<mapsto> 15] \<and>
         cells ws (1, 1) = Some (Some ''segment_name'') \<and>
         cells ws (1, 2) = Some (Some ''url'') \<and>
         cells ws (1, 3) = Some (Some ''label'') \<and>
         (\<forall>i \<in> set [0..<length segs].
            cells ws (i + 2, 1) = Some (map_option (take 32767) (segment_name (segs ! i))) \<and>
            cells ws (i + 2, 2) = Some (map_option (take 32767) (url (segs ! i))) \<and>
            cells ws (i + 2, 3) = Some (Some (take 32767 (label (segs ! i))))) \<and>
         dom (cells ws) = {1..length segs + 1} \<times> {1, 2, 3} \<and>
         wb_save False [ws] path fs = Inr (fs(path \<mapsto> [ws])) \<and>
         (\<not> export_fault e \<and> fst (load_segments_from_db e s) = segs \<longrightarrow>
            fst (api_commit e s) = Response 200 OkTrue \<and>
            files (snd (api_commit e s)) = (files s)(XLSX_PATH e \<mapsto> [ws]))"
    if ex: "exportable segs"
  proof -
    let ?ws = "results_sheet segs"
    have b: "build_workbook segs = Inr [?ws]"
      using ex by (simp add: build_workbook_eq)
    have ttl: "title ?ws = ''results''"
      and wd: "column_width ?ws = [''A'' \<mapsto> 40, ''B'' \<mapsto> 80, ''C'' \<mapsto> 15]"
      by (simp_all add: results_sheet_def)
    have hd: "cells ?ws (1, 1) = Some (Some ''segment_name'')"
      "cells ?ws (1, 2) = Some (Some ''url'')" "cells ?ws (1, 3) = Some (Some ''label'')"
      using results_cells_header [of segs] by (simp_all add: results_sheet_def)
    have rows: "\<forall>i \<in> set [0..<length segs].
        cells ?ws (i + 2, 1) = Some (map_option (take 32767) (segment_name (segs ! i))) \<and>
        cells ?ws (i + 2, 2) = Some (map_option (take 32767) (url (segs ! i))) \<and>
        cells ?ws (i + 2, 3) = Some (Some (take 32767 (label (segs ! i))))"
      using results_cells_row [of _ segs] by (simp add: results_sheet_def cell_value_def)
    have dm: "dom (cells ?ws) = {1..length segs + 1} \<times> {1, 2, 3}"
      by (simp add: results_sheet_def results_cells_dom)
    have sv: "wb_save False [?ws] path fs = Inr (fs(path \<mapsto> [?ws]))"
      by (simp add: wb_save_def)
    have cm: "\<not> export_fault e \<and> fst (load_segments_from_db e s) = segs \<longrightarrow>
            fst (api_commit e s) = Response 200 OkTrue \<and>
            files (snd (api_commit e s)) = (files s)(XLSX_PATH e \<mapsto> [?ws])"
      using ex by (auto simp: api_commit_response api_commit_files)
    from b ttl wd hd rows dm sv cm show ?thesis
      by blast
  qed
  from main empty show ?thesis
    by blast
qed

theorem export_sheet_layout_witness:
  "(\<exists>ws. build_workbook (fst (load_segments_from_db env_fail_first server_staged)) = Inr [ws] \<and>
      title ws = ''results'' \<and>
      cells ws (3, 1) = Some (Some ''seg8'') \<and>
      cells ws (3, 2) = Some (Some ''http://x/8.png'') \<and>
      cells ws (3, 3) = Some (Some ''dog'') \<and>
      files (snd (api_commit env_fail_first
                   (server_staged\<lparr>files := [''/srv/labeler/segments.xlsx'' \<mapsto> []]\<rparr>))) =
        [''/srv/labeler/segments.xlsx'' \<mapsto> [ws]])"
proof -
  let ?segs = "fst (load_segments_from_db env_fail_first server_staged)"
  let ?s = "server_staged\<lparr>files := [''/srv/labeler/segments.xlsx'' \<mapsto> []]\<rparr>"
  have i1: "1 \<in> set [0..<length ?segs]"
    unfolding load_staged by simp
  have e3: "(1::nat) + 2 = 3"
    by simp
  have f: "\<not> export_fault env_fail_first"
    by (simp add: env_fail_first_def env0_def)
  have path: "XLSX_PATH env_fail_first = ''/srv/labeler/segments.xlsx''"
    by (simp add: XLSX_PATH_def path_join_def env_fail_first_def env0_def)
  have l: "fst (load_segments_from_db env_fail_first ?s) = ?segs"
    by (simp add: load_segments_from_db_fst)
  have fs: "files ?s = [''/srv/labeler/segments.xlsx'' \<mapsto> []]"
    by simp
  have n1: "segment_name (?segs ! 1) = Some ''seg8''" "url (?segs ! 1) = Some ''http://x/8.png''"
    "label (?segs ! 1) = ''dog''"
    unfolding load_staged by simp_all
  have tk: "take 32767 ''dog'' = ''dog''" "map_option (take 32767) (Some ''seg8'') = Some ''seg8''"
    "map_option (take 32767) (Some ''http://x/8.png'') = Some ''http://x/8.png''"
    by simp_all
  obtain ws where b: "build_workbook ?segs = Inr [ws]" and ttl: "title ws = ''results''"
    and rows: "\<forall>i \<in> set [0..<length ?segs].
            cells ws (i + 2, 1) = Some (map_option (take 32767) (segment_name (?segs ! i))) \<and>
            cells ws (i + 2, 2) = Some (map_option (take 32767) (url (?segs ! i))) \<and>
            cells ws (i + 2, 3) = Some (Some (take 32767 (label (?segs ! i))))"
    and cm: "\<not> export_fault env_fail_first \<and> fst (load_segments_from_db env_fail_first ?s) = ?segs \<longrightarrow>
            fst (api_commit env_fail_first ?s) = Response 200 OkTrue \<and>
            files (snd (api_commit env_fail_first ?s)) = (files ?s)(XLSX_PATH env_fail_first \<mapsto> [ws])"
    using export_sheet_layout [of ?segs _ _ env_fail_first ?s] exportable_staged by blast
  have "cells ws (1 + 2, 1) = Some (map_option (take 32767) (segment_name (?segs ! 1))) \<and>
        cells ws (1 + 2, 2) = Some (map_option (take 32767) (url (?segs ! 1))) \<and>
        cells ws (1 + 2, 3) = Some (Some (take 32767 (label (?segs ! 1))))"
    using rows i1 by blast
  then have c: "cells ws (3, 1) = Some (Some ''seg8'')" "cells ws (3, 2) = Some (Some ''http://x/8.png'')"
    "cells ws (3, 3) = Some (Some ''dog'')"
    by (simp_all only: e3 n1 tk)
  have "files (snd (api_commit env_fail_first ?s)) = (files ?s)(XLSX_PATH env_fail_first \<mapsto> [ws])"
    using cm f l by blast
  then have fl: "files (snd (api_commit env_fail_first ?s)) = [''/srv/labeler/segments.xlsx'' \<mapsto> [ws]]"
    by (simp only: path fs fun_upd_upd)
  from b ttl c fl show ?thesis
    by blast
qed

text \<open>
  The label "a\u0001b" is staged for row 7 through the stage endpoint. The exporter
  raises on the sequence that holds it, the commit answers with that exception and no
  file is written.
\<close>

theorem export_refuses_control_character:
  "build_workbook
     [\<lparr>seg_id = 7, segment_name = Some ''seg7'', url = Some ''http://x/7.png'', label = ctrl_label\<rparr>] =
     Inl IllegalCharacterError \<and>
   fst (api_commit env0
     (snd (api_pending env0 (Some (JObj [(''id'', JInt 7), (''label'', JStr ctrl_label)])) server0))) =
     Raised IllegalCharacterError \<and>
   files (snd (api_commit env0
     (snd (api_pending env0 (Some (JObj [(''id'', JInt 7), (''label'', JStr ctrl_label)])) server0))))
     ''/srv/labeler/segments.xlsx'' = None"
proof -
  let ?s = "snd (api_pending env0 (Some (JObj [(''id'', JInt 7), (''label'', JStr ctrl_label)])) server0)"
  have s: "?s = server0\<lparr>pending_labels := [7 \<mapsto> ctrl_label]\<rparr>"
    by (simp add: api_pending_JObj server0_def)
  have l: "fst (load_segments_from_db env0 (server0\<lparr>pending_labels := [7 \<mapsto> ctrl_label]\<rparr>)) =
      [\<lparr>seg_id = 7, segment_name = Some ''seg7'', url = Some ''http://x/7.png'', label = ctrl_label\<rparr>,
       \<lparr>seg_id = 8, segment_name = Some ''seg8'', url = Some ''http://x/8.png'', label = []\<rparr>]"
    by (simp add: load_segments_from_db_fst env0_def server0_def row7_def row8_def
        segment_of_row_def or_empty_def)
  have nx: "\<not> exportable (fst (load_segments_from_db env0 ?s))"
    unfolding s l by (simp add: exportable_def accepted_examples)
  have nx1: "\<not> exportable
     [\<lparr>seg_id = 7, segment_name = Some ''seg7'', url = Some ''http://x/7.png'', label = ctrl_label\<rparr>]"
    by (simp add: exportable_def accepted_examples)
  have f0: "files ?s ''/srv/labeler/segments.xlsx'' = None"
    unfolding s by (simp add: server0_def)
  have "build_workbook
     [\<lparr>seg_id = 7, segment_name = Some ''seg7'', url = Some ''http://x/7.png'', label = ctrl_label\<rparr>] =
     Inl IllegalCharacterError"
    using nx1 by (simp add: build_workbook_eq)
  moreover have "fst (api_commit env0 ?s) = Raised IllegalCharacterError"
    using nx by (simp add: api_commit_response)
  moreover have "files (snd (api_commit env0 ?s)) ''/srv/labeler/segments.xlsx'' = None"
    using nx f0 by (simp add: api_commit_files)
  ultimately show ?thesis
    by blast
qed

end
